theory Spec2Isabelle
  imports Main
begin

section \<open>Request rate limiter (middleware/auth.js)\<close>

text \<open>
  The limiter keeps one process-wide \<open>Map\<close> from caller identifier to a record
  \<open>{count, resetTime}\<close>. JavaScript numbers are modelled as integers: the counter only
  ever holds small whole numbers and \<open>Date.now()\<close> is a whole number of milliseconds.
  The clock reading \<open>now\<close> is an argument of the model.
\<close>

record rateLimitRecord =
  count :: int
  resetTime :: int

type_synonym 'k rateLimitStore = "'k \<rightharpoonup> rateLimitRecord"

text \<open>The two ways the middleware ends: \<open>next()\<close> or \<open>res.status(429).json(...)\<close>.\<close>

datatype verdict = Next | Status429

text \<open>
  \<open>req.user = {id, role}\<close> is attached by \<open>protect\<close>; \<open>req.ip\<close> comes from the framework.
  An absent value (\<open>undefined\<close>) is \<open>None\<close>.
\<close>

record reqUser =
  ru_id :: string
  ru_role :: "string option"

record limiterRequest =
  req_user :: "reqUser option"
  req_ip :: "string option"

text \<open>\<open>const identifier = req.user?.id || req.ip\<close>: the empty string is falsy.\<close>

definition identifierOf :: "limiterRequest \<Rightarrow> string option" where
  "identifierOf req =
     (case req_user req of
        None \<Rightarrow> req_ip req
      | Some u \<Rightarrow> if ru_id u \<noteq> [] then Some (ru_id u) else req_ip req)"

text \<open>
  The body of the middleware returned by \<open>rateLimit(maxRequests, windowMs)\<close>, once the
  arguments and the identifier are known. \<open>record.count++\<close> mutates the object held by the map, so the
  map entry changes with it.
\<close>

definition rateLimitOn ::
  "int \<Rightarrow> int \<Rightarrow> int \<Rightarrow> 'k \<Rightarrow> 'k rateLimitStore \<Rightarrow> verdict \<times> 'k rateLimitStore" where
  "rateLimitOn maxRequests windowMs now ident store =
     (case store ident of
        None \<Rightarrow>
          (Next, store(ident \<mapsto> \<lparr>count = 1, resetTime = now + windowMs\<rparr>))
      | Some record \<Rightarrow>
          if now > resetTime record then
            (Next, store(ident \<mapsto> \<lparr>count = 1, resetTime = now + windowMs\<rparr>))
          else if count record \<ge> maxRequests then
            (Status429, store)
          else
            (Next, store(ident \<mapsto> record\<lparr>count := count record + 1\<rparr>)))"

text \<open>
  \<open>rateLimit(maxRequests = 100, windowMs = 15 * 60 * 1000)\<close>: an argument the caller
  leaves out (\<open>None\<close>) takes its default.
\<close>

definition rateLimit ::
  "int option \<Rightarrow> int option \<Rightarrow> int \<Rightarrow> limiterRequest \<Rightarrow> string option rateLimitStore
     \<Rightarrow> verdict \<times> string option rateLimitStore" where
  "rateLimit maxRequests windowMs now req store =
     rateLimitOn (case maxRequests of None \<Rightarrow> 100 | Some n \<Rightarrow> n)
       (case windowMs of None \<Rightarrow> 15 * 60 * 1000 | Some w \<Rightarrow> w)
       now (identifierOf req) store"

text \<open>The statement run by \<open>setInterval\<close> every minute: expired entries are deleted.\<close>

definition sweep :: "int \<Rightarrow> 'k rateLimitStore \<Rightarrow> 'k rateLimitStore" where
  "sweep now store =
     (\<lambda>key. case store key of
               None \<Rightarrow> None
             | Some v \<Rightarrow> if now > resetTime v then None else Some v)"

text \<open>Successive requests of one caller, at the given clock readings.\<close>

fun requests ::
  "int \<Rightarrow> int \<Rightarrow> 'k \<Rightarrow> int list \<Rightarrow> 'k rateLimitStore \<Rightarrow> verdict list \<times> 'k rateLimitStore" where
  "requests maxRequests windowMs ident [] store = ([], store)"
| "requests maxRequests windowMs ident (now # later) store =
     (let (v, store') = rateLimitOn maxRequests windowMs now ident store;
          (vs, store'') = requests maxRequests windowMs ident later store'
      in (v # vs, store''))"






text \<open>
  The limiter as the specification words it: \<open>check(key, max, windowMs)\<close> with its three
  cases, written independently of the code above.
\<close>

definition fresh_window :: "int \<Rightarrow> int \<Rightarrow> rateLimitRecord" where
  "fresh_window now windowMs = \<lparr>count = 1, resetTime = now + windowMs\<rparr>"

definition window_over :: "int \<Rightarrow> 'k \<Rightarrow> 'k rateLimitStore \<Rightarrow> bool" where
  "window_over now key store =
     (case store key of None \<Rightarrow> True | Some r \<Rightarrow> now > resetTime r)"

definition check_spec ::
  "'k \<Rightarrow> int \<Rightarrow> int \<Rightarrow> int \<Rightarrow> 'k rateLimitStore \<Rightarrow> verdict \<times> 'k rateLimitStore" where
  "check_spec key maxR windowMs now store =
     (if window_over now key store then
        (Next, store(key \<mapsto> fresh_window now windowMs))
      else
        (case store key of
           None \<Rightarrow> (Next, store(key \<mapsto> fresh_window now windowMs))
         | Some r \<Rightarrow>
             if count r < maxR then (Next, store(key \<mapsto> r\<lparr>count := count r + 1\<rparr>))
             else (Status429, store)))"

text \<open>The invariant of the specification: no stored count is above the maximum.\<close>

definition within_limit :: "int \<Rightarrow> 'k rateLimitStore \<Rightarrow> bool" where
  "within_limit maxR store = (\<forall>key r. store key = Some r \<longrightarrow> count r \<le> maxR)"

section \<open>Requests, responses and configuration (routes/auth.js)\<close>

text \<open>
  A request body is the object the JSON body parser leaves in \<open>req.body\<close>. Its fields
  are read as strings; an absent field (\<open>undefined\<close>) is \<open>None\<close>. Values of another
  JSON type are outside the model: what happens to them past the handlers' own tests is
  decided by the casting rules of the persistence layer.
\<close>

type_synonym body = "string \<rightharpoonup> string"

text \<open>JavaScript truthiness of an optional string: \<open>undefined\<close> and \<open>""\<close> are falsy.\<close>

definition truthy :: "string option \<Rightarrow> bool" where
  "truthy v = (case v of None \<Rightarrow> False | Some s \<Rightarrow> s \<noteq> [])"

text \<open>The public profile returned by a successful login.\<close>

record userInfo =
  info_id :: string
  info_username :: string
  info_email :: string
  info_role :: string

text \<open>
  What a handler sends: the HTTP status (\<open>res.json\<close> without \<open>res.status\<close> is 200) and the
  members of the JSON envelope; members a response does not carry are \<open>None\<close>.
\<close>

record response =
  status :: nat
  success :: bool
  message :: "string option"
  code :: "string option"
  accessToken :: "string option"
  refreshToken :: "string option"
  userInfo :: "userInfo option"

definition failure :: "nat \<Rightarrow> string \<Rightarrow> response" where
  "failure st msg =
     \<lparr>status = st, success = False, message = Some msg, code = None,
      accessToken = None, refreshToken = None, userInfo = None\<rparr>"

definition succeeded :: "nat \<Rightarrow> string option \<Rightarrow> response" where
  "succeeded st msg =
     \<lparr>status = st, success = True, message = msg, code = None,
      accessToken = None, refreshToken = None, userInfo = None\<rparr>"

text \<open>
  The three secrets read from \<open>process.env\<close>. They are configuration that the deployment
  supplies, so each is a string here; an unset variable is the empty string. In the
  comparison with \<open>adminToken\<close> both behave alike, since no truthy \<open>adminToken\<close> equals
  either, and \<open>jwt.sign\<close> throws on both.
\<close>

record env =
  JWT_SECRET :: string
  JWT_REFRESH_SECRET :: string
  ADMIN_SECRET_TOKEN :: string

section \<open>Token issuer (middleware/auth.js)\<close>

text \<open>
  Tokens are made and checked by the \<open>jsonwebtoken\<close> package, which is not part of the
  repository: \<open>jwt.sign\<close> and \<open>jwt.verify\<close> are parameters of the model. \<open>jwt_sign\<close>
  takes the payload, the secret, the lifetime in seconds and the clock reading in
  milliseconds; \<open>jwt_verify\<close> takes the token, the secret and the clock reading, and
  either throws (\<open>Inl\<close>) or returns the decoded claims. \<open>jwt.sign\<close> throws
  (\<open>secretOrPrivateKey must have a value\<close>) when the secret is empty or unset, before it
  looks at anything else; with a secret and the plain payloads built here it returns a
  token. That exception is \<open>None\<close> in the two issuing functions below.
\<close>

record payload =
  p_id :: string
  p_role :: "string option"

record decoded =
  d_id :: string
  d_role :: "string option"
  iat :: int
  exp :: int

datatype jwtError = TokenExpiredError | JsonWebTokenError

record jwt =
  jwt_sign :: "payload \<Rightarrow> string \<Rightarrow> int \<Rightarrow> int \<Rightarrow> string"
  jwt_verify :: "string \<Rightarrow> string \<Rightarrow> int \<Rightarrow> jwtError + decoded"

text \<open>\<open>expiresIn: '1d'\<close> is 86400 seconds, \<open>expiresIn: '7d'\<close> is 604800 seconds.\<close>

definition generateAccessToken ::
  "env \<Rightarrow> jwt \<Rightarrow> int \<Rightarrow> string \<Rightarrow> string \<Rightarrow> string option" where
  "generateAccessToken e j now userId role =
     (if JWT_SECRET e = [] then None
      else Some (jwt_sign j \<lparr>p_id = userId, p_role = Some role\<rparr> (JWT_SECRET e) 86400 now))"

definition generateRefreshToken :: "env \<Rightarrow> jwt \<Rightarrow> int \<Rightarrow> string \<Rightarrow> string option" where
  "generateRefreshToken e j now userId =
     (if JWT_REFRESH_SECRET e = [] then None
      else Some (jwt_sign j \<lparr>p_id = userId, p_role = None\<rparr> (JWT_REFRESH_SECRET e) 604800 now))"

text \<open>
  What the package promises for HS256 tokens: a token signed with a non-empty secret at
  clock reading \<open>now\<close> carries \<open>iat = floor(now / 1000)\<close> and \<open>exp = iat + lifetime\<close>, and
  verifying it with the same secret at a clock reading whose whole second is before \<open>exp\<close>
  returns the payload with \<open>iat\<close> and \<open>exp\<close> added.
\<close>

definition jwt_roundtrip :: "jwt \<Rightarrow> bool" where
  "jwt_roundtrip j =
     (\<forall>p secret lifetime now now'.
        secret \<noteq> [] \<and> now' div 1000 < now div 1000 + lifetime \<longrightarrow>
        jwt_verify j (jwt_sign j p secret lifetime now) secret now' =
          Inr \<lparr>d_id = p_id p, d_role = p_role p,
               iat = now div 1000, exp = now div 1000 + lifetime\<rparr>)"

section \<open>Credential store\<close>

text \<open>
  Modelled from the spec: the User schema of \<open>models/userModel.js\<close>, which is not among
  the sources. The fields are those of the specification's data model, under the names
  the handlers use (\<open>_id\<close> is \<open>uid\<close>); \<open>password\<close> holds the stored one-way hash.
\<close>

record refreshTokenRecord =
  token :: string
  createdAt :: int

record user =
  uid :: string
  username :: string
  email :: string
  password :: string
  role :: string
  isActive :: bool
  loginAttempts :: nat
  lockUntil :: "int option"
  refreshTokens :: "refreshTokenRecord list"

text \<open>
  What the handlers take from the absent user model without fixing it themselves:
  the password comparison \<open>user.matchPassword(password)\<close>, the hash applied when a user is
  saved, the validation run by \<open>save()\<close> (a failed validation throws), the identifier given
  to a new document, and the lockout constants, which the specification leaves open.
\<close>

record userModel =
  matchPassword :: "user \<Rightarrow> string \<Rightarrow> bool"
  hashPassword :: "string \<Rightarrow> string"
  validates :: "user \<Rightarrow> bool"
  newId :: "user list \<Rightarrow> string"
  lockThreshold :: nat
  lockDuration :: int

text \<open>
  The collection of user documents, in storage order; \<open>_id\<close> identifies a document.
  Queries and updates are functions of the collection: a failure of the store itself
  (a lost connection) is not modelled.
\<close>

type_synonym db = "user list"

definition findById :: "db \<Rightarrow> string \<Rightarrow> user option" where
  "findById users i = find (\<lambda>u. uid u = i) users"

text \<open>\<open>User.findOne({ email })\<close>.\<close>

definition findOneByEmail :: "db \<Rightarrow> string \<Rightarrow> user option" where
  "findOneByEmail users e = find (\<lambda>u. email u = e) users"

text \<open>\<open>User.findOne({ $or: [{ email }, { username }] })\<close>.\<close>

definition findOneByEmailOrUsername :: "db \<Rightarrow> string \<Rightarrow> string \<Rightarrow> user option" where
  "findOneByEmailOrUsername users e n = find (\<lambda>u. email u = e \<or> username u = n) users"

text \<open>An update of the one document with the given \<open>_id\<close>; no such document, no change.\<close>

fun updateById :: "string \<Rightarrow> (user \<Rightarrow> user) \<Rightarrow> db \<Rightarrow> db" where
  "updateById i f [] = []"
| "updateById i f (u # users) =
     (if uid u = i then f u # users else u # updateById i f users)"

text \<open>
  Modelled from the spec: the virtual \<open>isLocked\<close> of the absent user model. An account is
  locked while its lock-until timestamp is in the future.
\<close>

definition isLocked :: "int \<Rightarrow> user \<Rightarrow> bool" where
  "isLocked now u = (case lockUntil u of None \<Rightarrow> False | Some t \<Rightarrow> now < t)"

text \<open>
  Modelled from the spec: the method \<open>incrementLoginAttempts\<close> of the absent user model.
  It increments the failed-login counter and, past the threshold, sets lock-until to
  \<open>now\<close> plus the lock duration.
\<close>

definition incrementLoginAttempts :: "userModel \<Rightarrow> int \<Rightarrow> user \<Rightarrow> user" where
  "incrementLoginAttempts m now u =
     u\<lparr>loginAttempts := loginAttempts u + 1,
       lockUntil := (if lockThreshold m < loginAttempts u + 1
                     then Some (now + lockDuration m) else lockUntil u)\<rparr>"

text \<open>
  Modelled from the spec: the method \<open>resetLoginAttempts\<close> of the absent user model. It
  resets the failed-login counter to zero and clears lock-until.
\<close>

definition resetLoginAttempts :: "user \<Rightarrow> user" where
  "resetLoginAttempts u = u\<lparr>loginAttempts := 0, lockUntil := None\<rparr>"

section \<open>Handlers of routes/auth.js\<close>

subsection \<open>POST /register\<close>

text \<open>
  \<open>new User({ username, email, password, role: 'user' })\<close> followed by \<open>save()\<close>. The fields
  not given take the defaults of the data model.
\<close>

definition newUser :: "userModel \<Rightarrow> db \<Rightarrow> string \<Rightarrow> string \<Rightarrow> string \<Rightarrow> user" where
  "newUser m users n e pw =
     \<lparr>uid = newId m users, username = n, email = e, password = hashPassword m pw,
      role = ''user'', isActive = True, loginAttempts = 0, lockUntil = None,
      refreshTokens = []\<rparr>"

definition register :: "userModel \<Rightarrow> db \<Rightarrow> body \<Rightarrow> response \<times> db" where
  "register m users reqBody =
     (if reqBody ''role'' = Some ''admin'' then
        (failure 403 ''Admin registration not allowed through this endpoint'', users)
      else
        (case (reqBody ''username'', reqBody ''email'', reqBody ''password'') of
           (Some n, Some e, Some pw) \<Rightarrow>
             if n = [] \<or> e = [] \<or> pw = [] then
               (failure 400 ''Please provide username, email, and password'', users)
             else if length pw < 8 then
               (failure 400 ''Password must be at least 8 characters long'', users)
             else
               (case findOneByEmailOrUsername users e n of
                  Some existing \<Rightarrow> (failure 400 ''Username or email already in use'', users)
                | None \<Rightarrow>
                    if validates m (newUser m users n e pw) then
                      (succeeded 201 (Some ''User registered successfully''),
                       users @ [newUser m users n e pw])
                    else (failure 500 ''Server error while registering'', users))
         | _ \<Rightarrow> (failure 400 ''Please provide username, email, and password'', users)))"

subsection \<open>POST /login\<close>

text \<open>
  The calls a login makes on the user model, in the order made. Once the password has
  matched, \<open>resetLoginAttempts\<close> is awaited before the tokens are issued: if either
  \<open>jwt.sign\<close> throws, the reset is already stored, no token is, and the \<open>catch\<close> block
  answers 500.
\<close>

datatype modelCall = FindOne | IncrementLoginAttempts | MatchPassword | ResetLoginAttempts | Save

record loginOutcome =
  sent :: response
  stored :: db
  calls :: "modelCall list"

definition loginSuccess :: "string \<Rightarrow> string \<Rightarrow> user \<Rightarrow> response" where
  "loginSuccess at rt u =
     \<lparr>status = 200, success = True, message = None, code = None,
      accessToken = Some at, refreshToken = Some rt,
      userInfo = Some \<lparr>info_id = uid u, info_username = username u,
                       info_email = email u, info_role = role u\<rparr>\<rparr>"

definition login :: "env \<Rightarrow> jwt \<Rightarrow> userModel \<Rightarrow> int \<Rightarrow> db \<Rightarrow> body \<Rightarrow> loginOutcome" where
  "login e j m now users reqBody =
     (let adminToken = reqBody ''adminToken'' in
      if \<not> truthy (reqBody ''email'') \<or> \<not> truthy (reqBody ''password'') then
        \<lparr>sent = failure 400 ''Please provide email and password'', stored = users, calls = []\<rparr>
      else
        (case (reqBody ''email'', reqBody ''password'') of
           (Some em, Some pw) \<Rightarrow>
             (case findOneByEmail users em of
                None \<Rightarrow>
                  \<lparr>sent = failure 401 ''Invalid credentials'', stored = users,
                   calls = [FindOne]\<rparr>
              | Some u \<Rightarrow>
                  if role u = ''admin''
                     \<and> (\<not> truthy adminToken \<or> adminToken \<noteq> Some (ADMIN_SECRET_TOKEN e)) then
                    \<lparr>sent = failure 403 ''Admin token required for admin login'',
                     stored = updateById (uid u) (incrementLoginAttempts m now) users,
                     calls = [FindOne, IncrementLoginAttempts]\<rparr>
                  else if isLocked now u then
                    \<lparr>sent = failure 423
                       ''Account locked due to too many failed login attempts. Try again later.'',
                     stored = users, calls = [FindOne]\<rparr>
                  else if \<not> matchPassword m u pw then
                    \<lparr>sent = failure 401 ''Invalid credentials'',
                     stored = updateById (uid u) (incrementLoginAttempts m now) users,
                     calls = [FindOne, MatchPassword, IncrementLoginAttempts]\<rparr>
                  else
                    (case (generateAccessToken e j now (uid u) (role u),
                           generateRefreshToken e j now (uid u)) of
                       (Some at, Some rt) \<Rightarrow>
                         \<lparr>sent = loginSuccess at rt u,
                          stored = updateById (uid u)
                            (\<lambda>d. (resetLoginAttempts d)
                                   \<lparr>refreshTokens :=
                                      refreshTokens d @ [\<lparr>token = rt, createdAt = now\<rparr>]\<rparr>)
                            users,
                          calls = [FindOne, MatchPassword, ResetLoginAttempts, Save]\<rparr>
                     | _ \<Rightarrow>
                         \<lparr>sent = failure 500 ''Server error while logging in'',
                          stored = updateById (uid u) resetLoginAttempts users,
                          calls = [FindOne, MatchPassword, ResetLoginAttempts]\<rparr>))
         | _ \<Rightarrow>
           \<lparr>sent = failure 400 ''Please provide email and password'', stored = users,
            calls = []\<rparr>))"

subsection \<open>POST /refresh\<close>

text \<open>\<open>user.refreshTokens.some(t => t.token === refreshToken)\<close>.\<close>

definition tokenExists :: "user \<Rightarrow> string \<Rightarrow> bool" where
  "tokenExists u rt = list_ex (\<lambda>t. token t = rt) (refreshTokens u)"

text \<open>
  The handler writes nothing; the collection is returned as it was received so that this
  can be stated. Every exception inside the \<open>try\<close> block, those of \<open>jwt.verify\<close> and of
  \<open>generateAccessToken\<close> included, is answered by the \<open>catch\<close> block with 401.
\<close>

definition refresh :: "env \<Rightarrow> jwt \<Rightarrow> int \<Rightarrow> db \<Rightarrow> body \<Rightarrow> response \<times> db" where
  "refresh e j now users reqBody =
     (case reqBody ''refreshToken'' of
        None \<Rightarrow> (failure 400 ''Refresh token required'', users)
      | Some rt \<Rightarrow>
          if rt = [] then (failure 400 ''Refresh token required'', users)
          else
            (case jwt_verify j rt (JWT_REFRESH_SECRET e) now of
               Inl err \<Rightarrow> (failure 401 ''Invalid or expired refresh token'', users)
             | Inr dec \<Rightarrow>
                 (case findById users (d_id dec) of
                    None \<Rightarrow> (failure 401 ''Invalid refresh token'', users)
                  | Some u \<Rightarrow>
                      if \<not> isActive u then (failure 401 ''Invalid refresh token'', users)
                      else if \<not> tokenExists u rt then
                        (failure 401 ''Invalid refresh token'', users)
                      else
                        (case generateAccessToken e j now (uid u) (role u) of
                           None \<Rightarrow> (failure 401 ''Invalid or expired refresh token'', users)
                         | Some newAccessToken \<Rightarrow>
                             ((succeeded 200 None)\<lparr>accessToken := Some newAccessToken\<rparr>,
                              users)))))"

subsection \<open>The access guard and POST /logout\<close>



text \<open>\<open>$pull: { refreshTokens: { token: refreshToken } }\<close> removes every matching entry.\<close>

definition pullRefreshToken :: "string \<Rightarrow> user \<Rightarrow> user" where
  "pullRefreshToken rt u = u\<lparr>refreshTokens := filter (\<lambda>t. token t \<noteq> rt) (refreshTokens u)\<rparr>"



section \<open>Reference instances of the parameters\<close>

text \<open>
  A readable stand-in for the token package, to show that the round-trip contract can
  be met and to run the handlers on concrete requests. A token is the list of its fields
  (subject, role marker, role, secret, \<open>iat\<close>, \<open>exp\<close>), each written as its length in unary,
  a \<open>0\<close>, and the field itself.
\<close>

fun encodeFields :: "string list \<Rightarrow> string" where
  "encodeFields [] = []"
| "encodeFields (f # fs) = replicate (length f) (CHR ''1'') @ CHR ''0'' # f @ encodeFields fs"

fun decodeFields :: "nat \<Rightarrow> string \<Rightarrow> string list" where
  "decodeFields 0 s = []"
| "decodeFields (Suc n) s =
     (let l = length (takeWhile (\<lambda>c. c = CHR ''1'') s); rest = drop (Suc l) s
      in take l rest # decodeFields n (drop l rest))"

definition encodeInt :: "int \<Rightarrow> string" where
  "encodeInt i = (if i < 0 then CHR ''-'' else CHR ''+'') # replicate (nat \<bar>i\<bar>) (CHR ''1'')"

definition decodeInt :: "string \<Rightarrow> int" where
  "decodeInt s =
     (case s of [] \<Rightarrow> 0
      | c # digits \<Rightarrow> if c = CHR ''-'' then - int (length digits) else int (length digits))"

definition plainSign :: "payload \<Rightarrow> string \<Rightarrow> int \<Rightarrow> int \<Rightarrow> string" where
  "plainSign p secret lifetime now =
     encodeFields
       [p_id p,
        (case p_role p of None \<Rightarrow> ''N'' | Some r \<Rightarrow> ''S''),
        (case p_role p of None \<Rightarrow> [] | Some r \<Rightarrow> r),
        secret, encodeInt (now div 1000), encodeInt (now div 1000 + lifetime)]"

definition plainVerify :: "string \<Rightarrow> string \<Rightarrow> int \<Rightarrow> jwtError + decoded" where
  "plainVerify tok secret now =
     (case decodeFields 6 tok of
        [i, marker, r, s, issued, expires] \<Rightarrow>
          if encodeFields [i, marker, r, s, issued, expires] \<noteq> tok \<or> s \<noteq> secret then
            Inl JsonWebTokenError
          else if decodeInt expires \<le> now div 1000 then Inl TokenExpiredError
          else Inr \<lparr>d_id = i, d_role = (if marker = ''S'' then Some r else None),
                    iat = decodeInt issued, exp = decodeInt expires\<rparr>
      | _ \<Rightarrow> Inl JsonWebTokenError)"

definition plainJwt :: jwt where
  "plainJwt = \<lparr>jwt_sign = plainSign, jwt_verify = plainVerify\<rparr>"

text \<open>
  A user model that stores passwords as they are, accepts every document, numbers new
  documents by the size of the collection, and locks after more than 5 failures for
  15 minutes.
\<close>

definition unaryId :: "db \<Rightarrow> string" where
  "unaryId users = replicate (length users) (CHR ''u'')"

definition samePassword :: "user \<Rightarrow> string \<Rightarrow> bool" where
  "samePassword u pw = (password u = pw)"

definition acceptAll :: "user \<Rightarrow> bool" where
  "acceptAll u = True"

definition plainModel :: userModel where
  "plainModel =
     \<lparr>matchPassword = samePassword, hashPassword = id, validates = acceptAll,
      newId = unaryId, lockThreshold = 5, lockDuration = 900000\<rparr>"

definition testEnv :: env where
  "testEnv = \<lparr>JWT_SECRET = ''access-secret'', JWT_REFRESH_SECRET = ''refresh-secret'',
              ADMIN_SECRET_TOKEN = ''admin-secret''\<rparr>"

text \<open>
  Two accounts for the concrete runs: a regular user, with the refresh and access tokens
  issued to her at clock reading 0, and a locked administrator.
\<close>

definition aliceRefreshToken :: string where
  "aliceRefreshToken = plainSign \<lparr>p_id = ''a1'', p_role = None\<rparr> ''refresh-secret'' 604800 0"


definition alice :: user where
  "alice =
     \<lparr>uid = ''a1'', username = ''alice'', email = ''alice@example.com'',
      password = ''correct horse'', role = ''user'', isActive = True,
      loginAttempts = 0, lockUntil = None,
      refreshTokens = [\<lparr>token = aliceRefreshToken, createdAt = 0\<rparr>]\<rparr>"

definition root :: user where
  "root =
     \<lparr>uid = ''r1'', username = ''root'', email = ''root@example.com'',
      password = ''Str0ng&Secret!'', role = ''admin'', isActive = True,
      loginAttempts = 6, lockUntil = Some 900000, refreshTokens = []\<rparr>"

section \<open>Properties of the rate limiter\<close>

lemma rateLimitOn_check_spec:
  "rateLimitOn maxR w now k st = check_spec k maxR w now st"
  by (simp add: rateLimitOn_def check_spec_def window_over_def fresh_window_def
           split: option.splits)

lemma rateLimitOn_fresh:
  "window_over now k st \<Longrightarrow>
   rateLimitOn maxR w now k st = (Next, st(k \<mapsto> \<lparr>count = 1, resetTime = now + w\<rparr>))"
  by (cases "st k") (simp_all add: rateLimitOn_def window_over_def)


lemma rateLimitOn_in_window:
  "st k = Some r \<Longrightarrow> now \<le> resetTime r \<Longrightarrow>
   rateLimitOn maxR w now k st =
     (if maxR \<le> count r then (Status429, st)
      else (Next, st(k \<mapsto> r\<lparr>count := count r + 1\<rparr>)))"
  by (simp add: rateLimitOn_def)

lemma three_then_denied_then_fresh:
  assumes "window_over t1 k st" "t2 \<le> t1 + 1000" "t3 \<le> t1 + 1000" "t4 \<le> t1 + 1000"
    "t5 > t1 + 1000"
  shows "requests 3 1000 k [t1, t2, t3] st =
           ([Next, Next, Next], st(k \<mapsto> \<lparr>count = 3, resetTime = t1 + 1000\<rparr>))"
    and "requests 3 1000 k [t1, t2, t3, t4, t5] st =
           ([Next, Next, Next, Status429, Next],
            st(k \<mapsto> \<lparr>count = 1, resetTime = t5 + 1000\<rparr>))"
  using assms by (simp_all add: rateLimitOn_fresh rateLimitOn_in_window window_over_def)



lemma sweep_within_limit:
  "within_limit maxR st \<Longrightarrow> within_limit maxR (sweep now st)"
  by (auto simp: within_limit_def sweep_def split: option.splits if_splits)

lemma rateLimitOn_denied_unchanged:
  "fst (rateLimitOn maxR w now k st) = Status429 \<Longrightarrow> snd (rateLimitOn maxR w now k st) = st"
  by (auto simp: rateLimitOn_def split: option.splits if_splits)



text \<open>
  Claim C5. For every key, maximum, window length, clock reading and store, the middleware
  (its body, and the middleware as a whole on the identifier of the request) does what
  \<open>check(key, max, windowMs)\<close> of the specification says: an absent key or an elapsed
  window gives the record \<open>(1, now + windowMs)\<close> and the request passes; a count below the
  maximum is incremented and the request passes; otherwise the request is answered with
  429. With \<open>max = 3\<close> and \<open>windowMs = 1000\<close>, three requests of one key inside the window
  pass and leave the count at 3, the fourth is denied, and a request after the window has
  elapsed passes with a fresh count of 1.
\<close>

theorem rateLimit_behaves_as_check:
  "rateLimitOn maxR w now k st = check_spec k maxR w now st
   \<and> rateLimit (Some maxR) (Some w) now req store =
       check_spec (identifierOf req) maxR w now store
   \<and> (window_over t1 k st \<and> t2 \<le> t1 + 1000 \<and> t3 \<le> t1 + 1000 \<and> t4 \<le> t1 + 1000
        \<and> t1 + 1000 < t5 \<longrightarrow>
      requests 3 1000 k [t1, t2, t3] st =
        ([Next, Next, Next], st(k \<mapsto> \<lparr>count = 3, resetTime = t1 + 1000\<rparr>))
      \<and> requests 3 1000 k [t1, t2, t3, t4, t5] st =
        ([Next, Next, Next, Status429, Next],
         st(k \<mapsto> \<lparr>count = 1, resetTime = t5 + 1000\<rparr>)))"
proof (intro conjI impI)
  show "rateLimitOn maxR w now k st = check_spec k maxR w now st"
    by (rule rateLimitOn_check_spec)
next
  show "rateLimit (Some maxR) (Some w) now req store =
       check_spec (identifierOf req) maxR w now store"
    by (simp add: rateLimit_def rateLimitOn_check_spec)
next
  assume h: "window_over t1 k st \<and> t2 \<le> t1 + 1000 \<and> t3 \<le> t1 + 1000 \<and> t4 \<le> t1 + 1000
        \<and> t1 + 1000 < t5"
  then show "requests 3 1000 k [t1, t2, t3] st =
        ([Next, Next, Next], st(k \<mapsto> \<lparr>count = 3, resetTime = t1 + 1000\<rparr>))"
    by (intro three_then_denied_then_fresh(1)[of t1 k st t2 t3 t4 t5]) simp_all
  from h show "requests 3 1000 k [t1, t2, t3, t4, t5] st =
        ([Next, Next, Next, Status429, Next],
         st(k \<mapsto> \<lparr>count = 1, resetTime = t5 + 1000\<rparr>))"
    by (intro three_then_denied_then_fresh(2)) simp_all
qed

theorem rateLimit_behaves_as_check_witness:
  "rateLimitOn 3 1000 7 ''10.0.0.1'' Map.empty = check_spec ''10.0.0.1'' 3 1000 7 Map.empty
   \<and> rateLimit (Some 3) (Some 1000) 7 \<lparr>req_user = None, req_ip = Some ''10.0.0.1''\<rparr> Map.empty =
       (Next, [Some ''10.0.0.1'' \<mapsto> \<lparr>count = 1, resetTime = 1007\<rparr>])
   \<and> requests 3 1000 ''10.0.0.1'' [0, 100, 200] Map.empty =
        ([Next, Next, Next], [''10.0.0.1'' \<mapsto> \<lparr>count = 3, resetTime = 1000\<rparr>])
   \<and> requests 3 1000 ''10.0.0.1'' [0, 100, 200, 1000, 1001] Map.empty =
        ([Next, Next, Next, Status429, Next],
         [''10.0.0.1'' \<mapsto> \<lparr>count = 1, resetTime = 2001\<rparr>])"
  using rateLimit_behaves_as_check
    [of 3 1000 7 "''10.0.0.1''" Map.empty
        "\<lparr>req_user = None, req_ip = Some ''10.0.0.1''\<rparr>" Map.empty 0 100 200 1000 1001]
  by (simp add: window_over_def check_spec_def fresh_window_def identifierOf_def)




text \<open>
  Claim C10. A denied request leaves the store exactly as it was: whenever the answer
  is 429 the store is returned unchanged, and the answer is 429 with the store unchanged
  whenever the key has a record whose window has not elapsed and whose count has reached
  the maximum.
\<close>

theorem rateLimit_denied_leaves_record:
  "(fst (rateLimitOn maxR w now k st) = Status429 \<longrightarrow>
      snd (rateLimitOn maxR w now k st) = st)
   \<and> (\<forall>r. st k = Some r \<and> now \<le> resetTime r \<and> maxR \<le> count r \<longrightarrow>
         rateLimitOn maxR w now k st = (Status429, st))"
  by (simp add: rateLimitOn_denied_unchanged rateLimitOn_in_window)

theorem rateLimit_denied_leaves_record_witness:
  "fst (rateLimitOn 3 1000 500 ''k'' [''k'' \<mapsto> \<lparr>count = 3, resetTime = 1000\<rparr>]) = Status429
   \<and> snd (rateLimitOn 3 1000 500 ''k'' [''k'' \<mapsto> \<lparr>count = 3, resetTime = 1000\<rparr>]) =
       [''k'' \<mapsto> \<lparr>count = 3, resetTime = 1000\<rparr>]"
  using rateLimit_denied_leaves_record
    [of 3 1000 500 "''k''" "[''k'' \<mapsto> \<lparr>count = 3, resetTime = 1000\<rparr>]"]
  by simp

section \<open>Properties of the reference instances and of the store\<close>

lemma takeWhile_unary:
  "takeWhile (\<lambda>c. c = CHR ''1'') (replicate n (CHR ''1'') @ CHR ''0'' # s) = replicate n (CHR ''1'')"
  by (induction n) simp_all

lemma decode_step:
  "decodeFields (Suc n) (replicate (length f) (CHR ''1'') @ CHR ''0'' # f @ s) = f # decodeFields n s"
  by (simp add: takeWhile_unary Let_def del: replicate_Suc)

lemma decode_encode_append:
  "decodeFields (length fs) (encodeFields fs @ s) = fs"
proof (induction fs)
  case Nil
  show ?case by simp
next
  case (Cons f fs)
  have "decodeFields (Suc (length fs))
          (replicate (length f) (CHR ''1'') @ CHR ''0'' # f @ (encodeFields fs @ s)) =
        f # decodeFields (length fs) (encodeFields fs @ s)"
    by (rule decode_step)
  with Cons.IH show ?case by simp
qed

lemma decode_six:
  "decodeFields 6 (encodeFields [a, b, c, d, e, f]) = [a, b, c, d, e, f]"
proof -
  have "length [a, b, c, d, e, f] = 6" by simp
  then show ?thesis
    using decode_encode_append[of "[a, b, c, d, e, f]" "[]"] by (simp only: append_Nil2)
qed

lemma decodeInt_encodeInt: "decodeInt (encodeInt i) = i"
  by (simp add: decodeInt_def encodeInt_def)

lemma plainVerify_plainSign:
  assumes "now' div 1000 < now div 1000 + lifetime"
  shows "plainVerify (plainSign p secret lifetime now) secret now' =
           Inr \<lparr>d_id = p_id p, d_role = p_role p,
                iat = now div 1000, exp = now div 1000 + lifetime\<rparr>"
  using assms
  by (cases "p_role p")
     (simp_all add: plainVerify_def plainSign_def decode_six decodeInt_encodeInt
               del: encodeFields.simps)

lemma plainVerify_expired:
  assumes "now div 1000 + lifetime \<le> now' div 1000"
  shows "plainVerify (plainSign p secret lifetime now) secret now' = Inl TokenExpiredError"
  using assms
  by (cases "p_role p")
     (simp_all add: plainVerify_def plainSign_def decode_six decodeInt_encodeInt
               del: encodeFields.simps)

lemma plainJwt_roundtrip: "jwt_roundtrip plainJwt"
  by (simp add: jwt_roundtrip_def plainJwt_def plainVerify_plainSign)

lemma encodeFields_not_Nil: "fs \<noteq> [] \<Longrightarrow> encodeFields fs \<noteq> []"
  by (cases fs) simp_all

lemma plainSign_not_Nil: "plainSign p secret lifetime now \<noteq> []"
  by (simp add: plainSign_def encodeFields_not_Nil del: encodeFields.simps)




lemma findOneByEmail_Some:
  "findOneByEmail users em = Some u \<Longrightarrow> u \<in> set users \<and> email u = em"
  by (auto simp: findOneByEmail_def find_Some_iff)

lemma findById_distinct:
  "distinct (map uid users) \<Longrightarrow> u \<in> set users \<Longrightarrow> findById users (uid u) = Some u"
  unfolding findById_def by (induction users) auto

lemma findById_updateById:
  assumes "\<And>d. uid (f d) = uid d"
  shows "findById (updateById i f users) k =
           (if k = i then map_option f (findById users i) else findById users k)"
  using assms unfolding findById_def by (induction users) auto





lemma pullRefreshToken_removes:
  "rt \<notin> token ` set (refreshTokens (pullRefreshToken rt u))"
  by (auto simp: pullRefreshToken_def)

lemma tokenExists_iff: "tokenExists u rt \<longleftrightarrow> rt \<in> token ` set (refreshTokens u)"
  by (auto simp: tokenExists_def list_ex_iff)



lemma alice_refresh_verified:
  assumes "now div 1000 < 604800"
  shows "jwt_verify plainJwt aliceRefreshToken (JWT_REFRESH_SECRET testEnv) now =
      Inr \<lparr>d_id = ''a1'', d_role = None, iat = 0, exp = 604800\<rparr>"
proof -
  have "plainVerify aliceRefreshToken ''refresh-secret'' now =
      Inr \<lparr>d_id = ''a1'', d_role = None, iat = 0, exp = 604800\<rparr>"
    unfolding aliceRefreshToken_def using assms by (simp add: plainVerify_plainSign)
  then show ?thesis
    by (simp add: plainJwt_def testEnv_def)
qed

lemma alice_refresh_expired:
  assumes "604800 \<le> now div 1000"
  shows "jwt_verify plainJwt aliceRefreshToken (JWT_REFRESH_SECRET testEnv) now =
      Inl TokenExpiredError"
proof -
  have "plainVerify aliceRefreshToken ''refresh-secret'' now = Inl TokenExpiredError"
    unfolding aliceRefreshToken_def using assms by (simp add: plainVerify_expired)
  then show ?thesis
    by (simp add: plainJwt_def testEnv_def)
qed

section \<open>The branches of the refresh handler\<close>

lemma refresh_no_token:
  "\<not> truthy (reqBody ''refreshToken'') \<Longrightarrow>
   refresh e j now users reqBody = (failure 400 ''Refresh token required'', users)"
  by (auto simp: refresh_def truthy_def split: option.splits)

lemma refresh_verify_fails:
  "reqBody ''refreshToken'' = Some rt \<Longrightarrow> rt \<noteq> [] \<Longrightarrow>
   jwt_verify j rt (JWT_REFRESH_SECRET e) now = Inl err \<Longrightarrow>
   refresh e j now users reqBody = (failure 401 ''Invalid or expired refresh token'', users)"
  by (simp add: refresh_def)

lemma refresh_no_user:
  "reqBody ''refreshToken'' = Some rt \<Longrightarrow> rt \<noteq> [] \<Longrightarrow>
   jwt_verify j rt (JWT_REFRESH_SECRET e) now = Inr dec \<Longrightarrow>
   findById users (d_id dec) = None \<Longrightarrow>
   refresh e j now users reqBody = (failure 401 ''Invalid refresh token'', users)"
  by (simp add: refresh_def)

lemma refresh_user_refused:
  "reqBody ''refreshToken'' = Some rt \<Longrightarrow> rt \<noteq> [] \<Longrightarrow>
   jwt_verify j rt (JWT_REFRESH_SECRET e) now = Inr dec \<Longrightarrow>
   findById users (d_id dec) = Some u \<Longrightarrow>
   \<not> isActive u \<or> rt \<notin> token ` set (refreshTokens u) \<Longrightarrow>
   refresh e j now users reqBody = (failure 401 ''Invalid refresh token'', users)"
  by (auto simp: refresh_def tokenExists_iff)

lemma refresh_granted:
  "reqBody ''refreshToken'' = Some rt \<Longrightarrow> rt \<noteq> [] \<Longrightarrow>
   jwt_verify j rt (JWT_REFRESH_SECRET e) now = Inr dec \<Longrightarrow>
   findById users (d_id dec) = Some u \<Longrightarrow> isActive u \<Longrightarrow>
   rt \<in> token ` set (refreshTokens u) \<Longrightarrow> JWT_SECRET e \<noteq> [] \<Longrightarrow>
   refresh e j now users reqBody =
     (\<lparr>status = 200, success = True, message = None, code = None,
       accessToken = Some (jwt_sign j \<lparr>p_id = uid u, p_role = Some (role u)\<rparr>
                             (JWT_SECRET e) 86400 now),
       refreshToken = None, userInfo = None\<rparr>, users)"
  by (simp add: refresh_def tokenExists_iff generateAccessToken_def succeeded_def)

lemma refresh_store_unchanged: "snd (refresh e j now users reqBody) = users"
  by (auto simp: refresh_def split: option.splits sum.splits)

lemma refresh_status:
  "\<not> success (fst (refresh e j now users reqBody)) \<Longrightarrow>
   status (fst (refresh e j now users reqBody)) =
     (if truthy (reqBody ''refreshToken'') then 401 else 400)"
  by (auto simp: refresh_def failure_def succeeded_def truthy_def
           split: option.splits sum.splits if_splits)

text \<open>
  With the access-token secret empty or unset \<open>jwt.sign\<close> throws: a refresh that would
  otherwise succeed is answered 401 by its \<open>catch\<close> block, and a login whose password
  matched is answered 500 after the failed-login counter has been reset, with no refresh
  token stored.
\<close>

lemma refresh_unset_access_secret:
  "reqBody ''refreshToken'' = Some rt \<Longrightarrow> rt \<noteq> [] \<Longrightarrow>
   jwt_verify j rt (JWT_REFRESH_SECRET e) now = Inr dec \<Longrightarrow>
   findById users (d_id dec) = Some u \<Longrightarrow> isActive u \<Longrightarrow>
   rt \<in> token ` set (refreshTokens u) \<Longrightarrow> JWT_SECRET e = [] \<Longrightarrow>
   refresh e j now users reqBody = (failure 401 ''Invalid or expired refresh token'', users)"
  by (simp add: refresh_def tokenExists_iff generateAccessToken_def)

lemma login_unset_secret:
  "reqBody ''email'' = Some em \<Longrightarrow> em \<noteq> [] \<Longrightarrow> reqBody ''password'' = Some pw \<Longrightarrow>
   pw \<noteq> [] \<Longrightarrow> findOneByEmail users em = Some u \<Longrightarrow> role u \<noteq> ''admin'' \<Longrightarrow>
   \<not> isLocked now u \<Longrightarrow> matchPassword m u pw \<Longrightarrow>
   JWT_SECRET e = [] \<or> JWT_REFRESH_SECRET e = [] \<Longrightarrow>
   login e j m now users reqBody =
     \<lparr>sent = failure 500 ''Server error while logging in'',
      stored = updateById (uid u) resetLoginAttempts users,
      calls = [FindOne, MatchPassword, ResetLoginAttempts]\<rparr>"
  by (auto simp: login_def Let_def truthy_def generateAccessToken_def generateRefreshToken_def)

section \<open>Properties of the handlers\<close>

text \<open>
  Claim C1, as stated: a self-registration whose body carries \<open>role = admin\<close> is said to
  be answered with status 400. With otherwise valid fields the answer has status 403.
\<close>

theorem register_admin_role_status_not_400:
  "status (fst (register plainModel []
     [''role'' \<mapsto> ''admin'', ''username'' \<mapsto> ''mallory'',
      ''email'' \<mapsto> ''mallory@example.com'', ''password'' \<mapsto> ''long enough''])) = 403
   \<and> status (fst (register plainModel []
     [''role'' \<mapsto> ''admin'', ''username'' \<mapsto> ''mallory'',
      ''email'' \<mapsto> ''mallory@example.com'', ''password'' \<mapsto> ''long enough''])) \<noteq> 400"
  by (simp add: register_def failure_def)

text \<open>
  Claim C1, amended. Every self-registration whose body carries \<open>role = admin\<close> is
  rejected whatever the other fields are, for every user model and every collection: the
  answer is the failure envelope with status 403, and the collection is unchanged, so no
  user record is created.
\<close>

theorem register_admin_role_rejected:
  assumes "reqBody ''role'' = Some ''admin''"
  shows "register m users reqBody =
           (failure 403 ''Admin registration not allowed through this endpoint'', users)
         \<and> status (fst (register m users reqBody)) = 403
         \<and> \<not> success (fst (register m users reqBody))"
  using assms by (simp add: register_def failure_def)

theorem register_admin_role_rejected_witness:
  "register plainModel [alice]
     [''role'' \<mapsto> ''admin'', ''username'' \<mapsto> ''mallory'',
      ''email'' \<mapsto> ''mallory@example.com'', ''password'' \<mapsto> ''long enough''] =
     (failure 403 ''Admin registration not allowed through this endpoint'', [alice])"
  using register_admin_role_rejected
    [of "[''role'' \<mapsto> ''admin'', ''username'' \<mapsto> ''mallory'',
      ''email'' \<mapsto> ''mallory@example.com'', ''password'' \<mapsto> ''long enough'']"
      plainModel "[alice]"]
  by simp

text \<open>
  Claim C2. A login with email and password present, against an account whose lock-until
  timestamp is in the future, where an administrator account comes with the configured
  admin secret, is answered with status 423 and the account-locked message; the collection
  is unchanged, so neither the failed-login counter nor lock-until is touched; and the
  password comparison is not among the calls made. This holds for every password
  comparison, so also when the supplied password is the right one.
\<close>

theorem login_locked_account:
  assumes "reqBody ''email'' = Some em" and "em \<noteq> []"
    and "reqBody ''password'' = Some pw" and "pw \<noteq> []"
    and "findOneByEmail users em = Some u"
    and "lockUntil u = Some t" and "now < t"
    and "role u = ''admin'' \<longrightarrow>
           reqBody ''adminToken'' = Some (ADMIN_SECRET_TOKEN e) \<and> ADMIN_SECRET_TOKEN e \<noteq> []"
  shows "login e j m now users reqBody =
           \<lparr>sent = failure 423
              ''Account locked due to too many failed login attempts. Try again later.'',
            stored = users, calls = [FindOne]\<rparr>
         \<and> status (sent (login e j m now users reqBody)) = 423
         \<and> stored (login e j m now users reqBody) = users
         \<and> MatchPassword \<notin> set (calls (login e j m now users reqBody))
         \<and> IncrementLoginAttempts \<notin> set (calls (login e j m now users reqBody))"
proof -
  have "login e j m now users reqBody =
           \<lparr>sent = failure 423
              ''Account locked due to too many failed login attempts. Try again later.'',
            stored = users, calls = [FindOne]\<rparr>"
    using assms
    by (cases "role u = ''admin''") (simp_all add: login_def Let_def truthy_def isLocked_def)
  then show ?thesis
    by (simp add: failure_def)
qed

theorem login_locked_account_witness:
  "matchPassword plainModel root ''Str0ng&Secret!''
   \<and> login testEnv plainJwt plainModel 1000 [alice, root]
        [''email'' \<mapsto> ''root@example.com'', ''password'' \<mapsto> ''Str0ng&Secret!'',
         ''adminToken'' \<mapsto> ''admin-secret''] =
        \<lparr>sent = failure 423
           ''Account locked due to too many failed login attempts. Try again later.'',
         stored = [alice, root], calls = [FindOne]\<rparr>"
proof -
  have found: "findOneByEmail [alice, root] ''root@example.com'' = Some root"
    by (simp add: findOneByEmail_def alice_def root_def)
  have pw: "matchPassword plainModel root ''Str0ng&Secret!''"
    by (simp add: plainModel_def samePassword_def root_def)
  from login_locked_account
    [of "[''email'' \<mapsto> ''root@example.com'', ''password'' \<mapsto> ''Str0ng&Secret!'',
         ''adminToken'' \<mapsto> ''admin-secret'']" "''root@example.com''" "''Str0ng&Secret!''"
        "[alice, root]" root 900000 1000 testEnv plainJwt plainModel, OF _ _ _ _ found]
  have "login testEnv plainJwt plainModel 1000 [alice, root]
        [''email'' \<mapsto> ''root@example.com'', ''password'' \<mapsto> ''Str0ng&Secret!'',
         ''adminToken'' \<mapsto> ''admin-secret''] =
        \<lparr>sent = failure 423
           ''Account locked due to too many failed login attempts. Try again later.'',
         stored = [alice, root], calls = [FindOne]\<rparr>"
    by (simp add: root_def testEnv_def)
  with pw show ?thesis by simp
qed

text \<open>
  Claim C3. A login with email and password present, where the fetched user is an
  administrator and the supplied \<open>adminToken\<close> is absent or differs from the configured
  admin secret, is answered with status 403 and the admin-token-required message; the
  calls made are the lookup and \<open>incrementLoginAttempts\<close>, without the password
  comparison; and in the resulting collection the failed-login counter of that account
  is one higher while every other account is as before. Documents are identified by
  \<open>_id\<close>, so the identifiers of the collection are distinct.
\<close>

theorem login_admin_token_required:
  assumes "reqBody ''email'' = Some em" and "em \<noteq> []"
    and "reqBody ''password'' = Some pw" and "pw \<noteq> []"
    and "findOneByEmail users em = Some u"
    and "role u = ''admin''"
    and "reqBody ''adminToken'' \<noteq> Some (ADMIN_SECRET_TOKEN e)"
    and "distinct (map uid users)"
  shows "login e j m now users reqBody =
           \<lparr>sent = failure 403 ''Admin token required for admin login'',
            stored = updateById (uid u) (incrementLoginAttempts m now) users,
            calls = [FindOne, IncrementLoginAttempts]\<rparr>
         \<and> status (sent (login e j m now users reqBody)) = 403
         \<and> MatchPassword \<notin> set (calls (login e j m now users reqBody))
         \<and> map_option loginAttempts (findById (stored (login e j m now users reqBody)) (uid u)) =
             Some (loginAttempts u + 1)
         \<and> (\<forall>k. k \<noteq> uid u \<longrightarrow>
               findById (stored (login e j m now users reqBody)) k = findById users k)"
proof -
  have run: "login e j m now users reqBody =
           \<lparr>sent = failure 403 ''Admin token required for admin login'',
            stored = updateById (uid u) (incrementLoginAttempts m now) users,
            calls = [FindOne, IncrementLoginAttempts]\<rparr>"
    using assms(1-7) by (simp add: login_def Let_def truthy_def)
  have upd: "findById (updateById (uid u) (incrementLoginAttempts m now) users) k =
          (if k = uid u then map_option (incrementLoginAttempts m now) (findById users (uid u))
           else findById users k)" for k
    by (rule findById_updateById) (simp add: incrementLoginAttempts_def)
  have "u \<in> set users"
    using assms(5) by (simp add: findOneByEmail_Some)
  then have "findById users (uid u) = Some u"
    using assms(8) by (simp add: findById_distinct)
  then show ?thesis
    by (simp add: run upd failure_def incrementLoginAttempts_def)
qed

theorem login_admin_token_required_witness:
  "status (sent (login testEnv plainJwt plainModel 1000 [alice, root]
        [''email'' \<mapsto> ''root@example.com'', ''password'' \<mapsto> ''Str0ng&Secret!''])) = 403
   \<and> calls (login testEnv plainJwt plainModel 1000 [alice, root]
        [''email'' \<mapsto> ''root@example.com'', ''password'' \<mapsto> ''Str0ng&Secret!'']) =
       [FindOne, IncrementLoginAttempts]
   \<and> map_option loginAttempts
        (findById (stored (login testEnv plainJwt plainModel 1000 [alice, root]
          [''email'' \<mapsto> ''root@example.com'', ''password'' \<mapsto> ''Str0ng&Secret!'']))
          ''r1'') = Some 7"
proof -
  have found: "findOneByEmail [alice, root] ''root@example.com'' = Some root"
    by (simp add: findOneByEmail_def alice_def root_def)
  have ids: "distinct (map uid [alice, root])"
    by (simp add: alice_def root_def)
  have admin: "role root = ''admin''" and rid: "uid root = ''r1''"
    and n: "loginAttempts root = 6"
    by (simp_all add: root_def)
  let ?B = "[''email'' \<mapsto> ''root@example.com'', ''password'' \<mapsto> ''Str0ng&Secret!'']"
  let ?L = "login testEnv plainJwt plainModel 1000 [alice, root] ?B"
  have b1: "?B ''email'' = Some ''root@example.com''" and n1: "''root@example.com'' \<noteq> []"
    and b2: "?B ''password'' = Some ''Str0ng&Secret!''" and n2: "''Str0ng&Secret!'' \<noteq> []"
    and tok: "?B ''adminToken'' \<noteq> Some (ADMIN_SECRET_TOKEN testEnv)"
    by simp_all
  note inst = login_admin_token_required
    [of ?B _ _ _ _ testEnv plainJwt plainModel 1000, OF b1 n1 b2 n2 found admin tok ids]
  from inst have c1: "status (sent ?L) = 403"
    by blast
  from inst have "?L = \<lparr>sent = failure 403 ''Admin token required for admin login'',
            stored = updateById (uid root) (incrementLoginAttempts plainModel 1000) [alice, root],
            calls = [FindOne, IncrementLoginAttempts]\<rparr>"
    by blast
  then have c2: "calls ?L = [FindOne, IncrementLoginAttempts]"
    by simp
  from inst have "map_option loginAttempts (findById (stored ?L) (uid root)) =
      Some (loginAttempts root + 1)"
    by blast
  then have c3: "map_option loginAttempts (findById (stored ?L) ''r1'') = Some 7"
    by (simp add: rid n)
  from c1 c2 c3 show ?thesis
    by blast
qed

text \<open>
  Claim C4. For a refresh request that carries a token which \<open>jwt.verify\<close> accepts under
  the refresh secret, the access-token secret being configured: the request succeeds
  exactly when the user named by the decoded subject exists, is active, and has the
  literal token string in the stored refresh-token list. A success is the 200 envelope
  whose \<open>accessToken\<close> is the token \<open>jwt.sign\<close> makes from \<open>{id, role}\<close> of that user with the
  access-token secret and a lifetime of one day; under the round-trip contract of the
  package that token verifies to these claims until it expires. A failure has status
  401. In every case the collection, the refresh-token lists included, is left as it was.
\<close>

theorem refresh_valid_token:
  assumes "reqBody ''refreshToken'' = Some rt" and "rt \<noteq> []"
    and "jwt_verify j rt (JWT_REFRESH_SECRET e) now = Inr dec"
    and "JWT_SECRET e \<noteq> []"
  shows "(success (fst (refresh e j now users reqBody)) \<longleftrightarrow>
            (\<exists>u. findById users (d_id dec) = Some u \<and> isActive u
                 \<and> rt \<in> token ` set (refreshTokens u)))
         \<and> (\<forall>u. findById users (d_id dec) = Some u \<and> isActive u
                 \<and> rt \<in> token ` set (refreshTokens u) \<longrightarrow>
               refresh e j now users reqBody =
                 (\<lparr>status = 200, success = True, message = None, code = None,
                   accessToken = Some (jwt_sign j \<lparr>p_id = uid u, p_role = Some (role u)\<rparr>
                                         (JWT_SECRET e) 86400 now),
                   refreshToken = None, userInfo = None\<rparr>, users)
               \<and> (jwt_roundtrip j \<and> checkedAt div 1000 < now div 1000 + 86400 \<longrightarrow>
                    jwt_verify j (jwt_sign j \<lparr>p_id = uid u, p_role = Some (role u)\<rparr>
                                    (JWT_SECRET e) 86400 now) (JWT_SECRET e) checkedAt =
                      Inr \<lparr>d_id = uid u, d_role = Some (role u),
                           iat = now div 1000, exp = now div 1000 + 86400\<rparr>))
         \<and> (\<not> success (fst (refresh e j now users reqBody)) \<longrightarrow>
              status (fst (refresh e j now users reqBody)) = 401)
         \<and> snd (refresh e j now users reqBody) = users"
proof (intro conjI allI impI)
  show "success (fst (refresh e j now users reqBody)) \<longleftrightarrow>
            (\<exists>u. findById users (d_id dec) = Some u \<and> isActive u
                 \<and> rt \<in> token ` set (refreshTokens u))"
  proof (cases "findById users (d_id dec)")
    case None
    with assms show ?thesis
      by (simp add: refresh_no_user failure_def)
  next
    case (Some u)
    show ?thesis
    proof (cases "isActive u \<and> rt \<in> token ` set (refreshTokens u)")
      case True
      with assms Some show ?thesis
        by (simp add: refresh_granted)
    next
      case False
      then have "\<not> isActive u \<or> rt \<notin> token ` set (refreshTokens u)"
        by blast
      with assms(1-3) Some
      have "refresh e j now users reqBody = (failure 401 ''Invalid refresh token'', users)"
        by (rule refresh_user_refused)
      with Some False show ?thesis
        by (auto simp: failure_def)
    qed
  qed
next
  fix u
  assume "findById users (d_id dec) = Some u \<and> isActive u
                 \<and> rt \<in> token ` set (refreshTokens u)"
  with assms show "refresh e j now users reqBody =
                 (\<lparr>status = 200, success = True, message = None, code = None,
                   accessToken = Some (jwt_sign j \<lparr>p_id = uid u, p_role = Some (role u)\<rparr>
                                         (JWT_SECRET e) 86400 now),
                   refreshToken = None, userInfo = None\<rparr>, users)"
    by (simp add: refresh_granted)
next
  fix u :: user
  assume "jwt_roundtrip j \<and> checkedAt div 1000 < now div 1000 + 86400"
  with assms(4) show "jwt_verify j (jwt_sign j \<lparr>p_id = uid u, p_role = Some (role u)\<rparr>
                                    (JWT_SECRET e) 86400 now) (JWT_SECRET e) checkedAt =
                      Inr \<lparr>d_id = uid u, d_role = Some (role u),
                           iat = now div 1000, exp = now div 1000 + 86400\<rparr>"
    unfolding jwt_roundtrip_def by simp
next
  assume "\<not> success (fst (refresh e j now users reqBody))"
  then show "status (fst (refresh e j now users reqBody)) = 401"
    using assms(1,2) by (simp add: refresh_status truthy_def)
next
  show "snd (refresh e j now users reqBody) = users"
    by (rule refresh_store_unchanged)
qed

theorem refresh_valid_token_witness:
  "refresh testEnv plainJwt 5000 [alice, root] [''refreshToken'' \<mapsto> aliceRefreshToken] =
     (\<lparr>status = 200, success = True, message = None, code = None,
       accessToken = Some (plainSign \<lparr>p_id = ''a1'', p_role = Some ''user''\<rparr>
                             ''access-secret'' 86400 5000),
       refreshToken = None, userInfo = None\<rparr>, [alice, root])
   \<and> plainVerify (plainSign \<lparr>p_id = ''a1'', p_role = Some ''user''\<rparr>
                    ''access-secret'' 86400 5000) ''access-secret'' 6000 =
       Inr \<lparr>d_id = ''a1'', d_role = Some ''user'', iat = 5, exp = 86405\<rparr>"
proof -
  have b: "[''refreshToken'' \<mapsto> aliceRefreshToken] ''refreshToken'' = Some aliceRefreshToken"
    by simp
  have ne: "aliceRefreshToken \<noteq> []"
    unfolding aliceRefreshToken_def by (rule plainSign_not_Nil)
  have ver: "jwt_verify plainJwt aliceRefreshToken (JWT_REFRESH_SECRET testEnv) 5000 =
      Inr \<lparr>d_id = ''a1'', d_role = None, iat = 0, exp = 604800\<rparr>"
    by (rule alice_refresh_verified) simp
  have sec: "JWT_SECRET testEnv \<noteq> []"
    by (simp add: testEnv_def)
  have holder: "findById [alice, root] (d_id \<lparr>d_id = ''a1'', d_role = None, iat = 0, exp = 604800\<rparr>)
        = Some alice \<and> isActive alice \<and> aliceRefreshToken \<in> token ` set (refreshTokens alice)"
    by (simp add: findById_def alice_def)
  have later: "jwt_roundtrip plainJwt \<and> (6000::int) div 1000 < 5000 div 1000 + 86400"
    by (simp add: plainJwt_roundtrip)
  note inst = refresh_valid_token
      [where reqBody = "[''refreshToken'' \<mapsto> aliceRefreshToken]" and users = "[alice, root]"
         and checkedAt = 6000,
       OF b ne ver sec, THEN conjunct2, THEN conjunct1, THEN spec, THEN mp, OF holder]
  from inst[THEN conjunct1]
  have granted: "refresh testEnv plainJwt 5000 [alice, root] [''refreshToken'' \<mapsto> aliceRefreshToken] =
     (\<lparr>status = 200, success = True, message = None, code = None,
       accessToken = Some (plainSign \<lparr>p_id = ''a1'', p_role = Some ''user''\<rparr>
                             ''access-secret'' 86400 5000),
       refreshToken = None, userInfo = None\<rparr>, [alice, root])"
    by (simp add: alice_def plainJwt_def testEnv_def)
  from inst[THEN conjunct2, THEN mp, OF later]
  have "plainVerify (plainSign \<lparr>p_id = ''a1'', p_role = Some ''user''\<rparr>
                    ''access-secret'' 86400 5000) ''access-secret'' 6000 =
       Inr \<lparr>d_id = ''a1'', d_role = Some ''user'', iat = 5, exp = 86405\<rparr>"
    by (simp add: alice_def plainJwt_def testEnv_def)
  with granted show ?thesis
    by (rule conjI)
qed

text \<open>
  Claim C6, as stated: every failing refresh request is said to be answered with status
  401. A request without the refresh-token field fails with status 400.
\<close>

theorem refresh_missing_token_is_400:
  "\<not> success (fst (refresh testEnv plainJwt 0 [alice, root] Map.empty))
   \<and> status (fst (refresh testEnv plainJwt 0 [alice, root] Map.empty)) = 400
   \<and> status (fst (refresh testEnv plainJwt 0 [alice, root] Map.empty)) \<noteq> 401"
  by (simp add: refresh_def failure_def)

text \<open>
  Claim C6, amended. A refresh request whose refresh-token field is missing or empty
  fails with status 400. Each other cause fails with status 401: a token that
  \<open>jwt.verify\<close> rejects as invalid or expired, a subject user that is absent, a subject
  user that is inactive, and a token string that is not in the user's refresh-token list.
  No failing refresh request has a status other than these two, 400 being that of the
  missing or empty field only.
\<close>

theorem refresh_failure_status:
  "(\<not> truthy (reqBody ''refreshToken'') \<longrightarrow>
      refresh e j now users reqBody = (failure 400 ''Refresh token required'', users)
      \<and> \<not> success (fst (refresh e j now users reqBody))
      \<and> status (fst (refresh e j now users reqBody)) = 400)
   \<and> (\<forall>rt. reqBody ''refreshToken'' = Some rt \<and> rt \<noteq> [] \<longrightarrow>
         (\<forall>err. jwt_verify j rt (JWT_REFRESH_SECRET e) now = Inl err \<longrightarrow>
            refresh e j now users reqBody =
              (failure 401 ''Invalid or expired refresh token'', users))
         \<and> (\<forall>dec. jwt_verify j rt (JWT_REFRESH_SECRET e) now = Inr dec \<longrightarrow>
              (findById users (d_id dec) = None \<longrightarrow>
                 refresh e j now users reqBody = (failure 401 ''Invalid refresh token'', users))
              \<and> (\<forall>u. findById users (d_id dec) = Some u
                      \<and> (\<not> isActive u \<or> rt \<notin> token ` set (refreshTokens u)) \<longrightarrow>
                    refresh e j now users reqBody =
                      (failure 401 ''Invalid refresh token'', users))))
   \<and> (\<not> success (fst (refresh e j now users reqBody)) \<longrightarrow>
        status (fst (refresh e j now users reqBody)) =
          (if truthy (reqBody ''refreshToken'') then 401 else 400))
   \<and> \<not> success (failure 401 ''Invalid refresh token'')
   \<and> status (failure 401 ''Invalid refresh token'') = 401
   \<and> \<not> success (failure 401 ''Invalid or expired refresh token'')
   \<and> status (failure 401 ''Invalid or expired refresh token'') = 401"
proof (intro conjI allI impI)
  assume "\<not> truthy (reqBody ''refreshToken'')"
  then have none: "refresh e j now users reqBody = (failure 400 ''Refresh token required'', users)"
    by (rule refresh_no_token)
  then show "refresh e j now users reqBody = (failure 400 ''Refresh token required'', users)" .
  from none show "\<not> success (fst (refresh e j now users reqBody))"
    by (simp add: failure_def)
  from none show "status (fst (refresh e j now users reqBody)) = 400"
    by (simp add: failure_def)
next
  fix rt err
  assume "reqBody ''refreshToken'' = Some rt \<and> rt \<noteq> []"
    and "jwt_verify j rt (JWT_REFRESH_SECRET e) now = Inl err"
  then show "refresh e j now users reqBody =
      (failure 401 ''Invalid or expired refresh token'', users)"
    by (simp add: refresh_verify_fails)
next
  fix rt dec
  assume "reqBody ''refreshToken'' = Some rt \<and> rt \<noteq> []"
    and "jwt_verify j rt (JWT_REFRESH_SECRET e) now = Inr dec"
    and "findById users (d_id dec) = None"
  then show "refresh e j now users reqBody = (failure 401 ''Invalid refresh token'', users)"
    by (simp add: refresh_no_user)
next
  fix rt dec u
  assume a: "reqBody ''refreshToken'' = Some rt \<and> rt \<noteq> []"
    and v: "jwt_verify j rt (JWT_REFRESH_SECRET e) now = Inr dec"
    and u: "findById users (d_id dec) = Some u
              \<and> (\<not> isActive u \<or> rt \<notin> token ` set (refreshTokens u))"
  from a have "reqBody ''refreshToken'' = Some rt" and "rt \<noteq> []"
    by simp_all
  moreover note v
  moreover from u have "findById users (d_id dec) = Some u"
    and "\<not> isActive u \<or> rt \<notin> token ` set (refreshTokens u)"
    by simp_all
  ultimately show "refresh e j now users reqBody = (failure 401 ''Invalid refresh token'', users)"
    by (rule refresh_user_refused)
next
  assume "\<not> success (fst (refresh e j now users reqBody))"
  then show "status (fst (refresh e j now users reqBody)) =
          (if truthy (reqBody ''refreshToken'') then 401 else 400)"
    by (rule refresh_status)
qed (simp_all add: failure_def)

theorem refresh_failure_status_witness:
  "refresh testEnv plainJwt 5000 [alice, root] Map.empty =
     (failure 400 ''Refresh token required'', [alice, root])
   \<and> refresh testEnv plainJwt 5000 [alice, root] [''refreshToken'' \<mapsto> []] =
     (failure 400 ''Refresh token required'', [alice, root])
   \<and> status (fst (refresh testEnv plainJwt 5000 [alice, root] [''refreshToken'' \<mapsto> []])) = 400
   \<and> refresh testEnv plainJwt 604800000 [alice, root] [''refreshToken'' \<mapsto> aliceRefreshToken] =
     (failure 401 ''Invalid or expired refresh token'', [alice, root])
   \<and> refresh testEnv plainJwt 5000 [root] [''refreshToken'' \<mapsto> aliceRefreshToken] =
     (failure 401 ''Invalid refresh token'', [root])
   \<and> refresh testEnv plainJwt 5000 [alice\<lparr>refreshTokens := []\<rparr>, root]
       [''refreshToken'' \<mapsto> aliceRefreshToken] =
     (failure 401 ''Invalid refresh token'', [alice\<lparr>refreshTokens := []\<rparr>, root])
   \<and> refresh testEnv plainJwt 5000 [alice\<lparr>isActive := False\<rparr>, root]
       [''refreshToken'' \<mapsto> aliceRefreshToken] =
     (failure 401 ''Invalid refresh token'', [alice\<lparr>isActive := False\<rparr>, root])"
proof -
  let ?B = "[''refreshToken'' \<mapsto> aliceRefreshToken]"
  let ?dec = "\<lparr>d_id = ''a1'', d_role = None, iat = 0, exp = 604800\<rparr>"
  have ne: "aliceRefreshToken \<noteq> []"
    unfolding aliceRefreshToken_def by (rule plainSign_not_Nil)
  then have carried: "?B ''refreshToken'' = Some aliceRefreshToken \<and> aliceRefreshToken \<noteq> []"
    by simp
  have ver: "jwt_verify plainJwt aliceRefreshToken (JWT_REFRESH_SECRET testEnv) 5000 = Inr ?dec"
    by (rule alice_refresh_verified) simp
  have late: "jwt_verify plainJwt aliceRefreshToken (JWT_REFRESH_SECRET testEnv) 604800000 =
      Inl TokenExpiredError"
    by (rule alice_refresh_expired) simp
  have "\<not> truthy (Map.empty ''refreshToken'')"
    by (simp add: truthy_def)
  from refresh_failure_status
    [where reqBody = Map.empty and e = testEnv and j = plainJwt and now = 5000
       and users = "[alice, root]", THEN conjunct1, THEN mp, OF this]
  have c1: "refresh testEnv plainJwt 5000 [alice, root] Map.empty =
     (failure 400 ''Refresh token required'', [alice, root])"
    by (rule conjunct1)
  have "\<not> truthy ([''refreshToken'' \<mapsto> []] ''refreshToken'')"
    by (simp add: truthy_def)
  note empty = refresh_failure_status
    [where reqBody = "[''refreshToken'' \<mapsto> []]" and e = testEnv and j = plainJwt
       and now = 5000 and users = "[alice, root]", THEN conjunct1, THEN mp, OF this]
  from empty have c2: "refresh testEnv plainJwt 5000 [alice, root] [''refreshToken'' \<mapsto> []] =
     (failure 400 ''Refresh token required'', [alice, root])"
    by (rule conjunct1)
  from empty
  have c3: "status (fst (refresh testEnv plainJwt 5000 [alice, root] [''refreshToken'' \<mapsto> []])) = 400"
    by blast
  have c4: "refresh testEnv plainJwt 604800000 [alice, root] ?B =
     (failure 401 ''Invalid or expired refresh token'', [alice, root])"
    by (rule refresh_failure_status
          [where reqBody = ?B and users = "[alice, root]",
           THEN conjunct2, THEN conjunct1, rule_format, OF carried, THEN conjunct1,
           rule_format, OF late])
  have "findById [root] (d_id ?dec) = None"
    by (simp add: findById_def root_def)
  then have c5: "refresh testEnv plainJwt 5000 [root] ?B =
     (failure 401 ''Invalid refresh token'', [root])"
    by (rule refresh_failure_status
          [where reqBody = ?B and users = "[root]",
           THEN conjunct2, THEN conjunct1, rule_format, OF carried, THEN conjunct2,
           rule_format, OF ver, THEN conjunct1, rule_format])
  have "findById [alice\<lparr>refreshTokens := []\<rparr>, root] (d_id ?dec) =
          Some (alice\<lparr>refreshTokens := []\<rparr>)
        \<and> (\<not> isActive (alice\<lparr>refreshTokens := []\<rparr>)
           \<or> aliceRefreshToken \<notin> token ` set (refreshTokens (alice\<lparr>refreshTokens := []\<rparr>)))"
    by (simp add: findById_def alice_def)
  then have c6: "refresh testEnv plainJwt 5000 [alice\<lparr>refreshTokens := []\<rparr>, root] ?B =
     (failure 401 ''Invalid refresh token'', [alice\<lparr>refreshTokens := []\<rparr>, root])"
    by (rule refresh_failure_status
          [where reqBody = ?B and users = "[alice\<lparr>refreshTokens := []\<rparr>, root]",
           THEN conjunct2, THEN conjunct1, rule_format, OF carried, THEN conjunct2,
           rule_format, OF ver, THEN conjunct2, rule_format])
  have "findById [alice\<lparr>isActive := False\<rparr>, root] (d_id ?dec) =
          Some (alice\<lparr>isActive := False\<rparr>)
        \<and> (\<not> isActive (alice\<lparr>isActive := False\<rparr>)
           \<or> aliceRefreshToken \<notin> token ` set (refreshTokens (alice\<lparr>isActive := False\<rparr>)))"
    by (simp add: findById_def alice_def)
  then have c7: "refresh testEnv plainJwt 5000 [alice\<lparr>isActive := False\<rparr>, root] ?B =
     (failure 401 ''Invalid refresh token'', [alice\<lparr>isActive := False\<rparr>, root])"
    by (rule refresh_failure_status
          [where reqBody = ?B and users = "[alice\<lparr>isActive := False\<rparr>, root]",
           THEN conjunct2, THEN conjunct1, rule_format, OF carried, THEN conjunct2,
           rule_format, OF ver, THEN conjunct2, rule_format])
  from c1 c2 c3 c4 c5 c6 c7 show ?thesis
    by (intro conjI)
qed



text \<open>
  Claim C8. With a token package that keeps its round-trip contract and with non-empty
  secrets, both issuing functions return a token, the one \<open>jwt.sign\<close> makes from
  \<open>{id: userId, role}\<close> with the access-token secret and a lifetime of one day, and from
  \<open>{id: userId}\<close> with the refresh-token secret and a lifetime of seven days. Verifying the
  access token with the access-token secret before its expiry, one day of seconds after
  the second of issue, yields the claims \<open>{id: userId, role}\<close> together with \<open>iat\<close> and
  \<open>exp\<close>; verifying the refresh token with the refresh-token secret before its expiry,
  seven days of seconds after the second of issue, yields \<open>{id: userId}\<close> with no role.
\<close>

theorem token_roundtrip:
  assumes "jwt_roundtrip j"
    and "JWT_SECRET e \<noteq> []" and "JWT_REFRESH_SECRET e \<noteq> []"
    and "checkedAt div 1000 < issuedAt div 1000 + 86400"
    and "checkedAt' div 1000 < issuedAt div 1000 + 604800"
  shows "(\<exists>tok. generateAccessToken e j issuedAt userId r = Some tok
            \<and> jwt_verify j tok (JWT_SECRET e) checkedAt =
                Inr \<lparr>d_id = userId, d_role = Some r,
                     iat = issuedAt div 1000, exp = issuedAt div 1000 + 86400\<rparr>)
         \<and> (\<exists>tok. generateRefreshToken e j issuedAt userId = Some tok
            \<and> jwt_verify j tok (JWT_REFRESH_SECRET e) checkedAt' =
                Inr \<lparr>d_id = userId, d_role = None,
                     iat = issuedAt div 1000, exp = issuedAt div 1000 + 604800\<rparr>)
         \<and> generateAccessToken e j issuedAt userId r =
             Some (jwt_sign j \<lparr>p_id = userId, p_role = Some r\<rparr> (JWT_SECRET e) 86400 issuedAt)
         \<and> generateRefreshToken e j issuedAt userId =
             Some (jwt_sign j \<lparr>p_id = userId, p_role = None\<rparr> (JWT_REFRESH_SECRET e)
                     604800 issuedAt)"
  using assms unfolding jwt_roundtrip_def generateAccessToken_def generateRefreshToken_def
  by simp

theorem token_roundtrip_witness:
  "generateAccessToken testEnv plainJwt 1500 ''a1'' ''user'' =
     Some (plainSign \<lparr>p_id = ''a1'', p_role = Some ''user''\<rparr> ''access-secret'' 86400 1500)
   \<and> plainVerify (plainSign \<lparr>p_id = ''a1'', p_role = Some ''user''\<rparr> ''access-secret'' 86400 1500)
       ''access-secret'' 86400999 =
     Inr \<lparr>d_id = ''a1'', d_role = Some ''user'', iat = 1, exp = 86401\<rparr>
   \<and> generateRefreshToken testEnv plainJwt 1500 ''a1'' =
     Some (plainSign \<lparr>p_id = ''a1'', p_role = None\<rparr> ''refresh-secret'' 604800 1500)
   \<and> plainVerify (plainSign \<lparr>p_id = ''a1'', p_role = None\<rparr> ''refresh-secret'' 604800 1500)
       ''refresh-secret'' 86400999 =
     Inr \<lparr>d_id = ''a1'', d_role = None, iat = 1, exp = 604801\<rparr>"
proof -
  have s1: "JWT_SECRET testEnv \<noteq> []" and s2: "JWT_REFRESH_SECRET testEnv \<noteq> []"
    by (simp_all add: testEnv_def)
  have t1: "(86400999::int) div 1000 < 1500 div 1000 + 86400"
    and t2: "(86400999::int) div 1000 < 1500 div 1000 + 604800"
    by simp_all
  from token_roundtrip[OF plainJwt_roundtrip s1 s2 t1 t2, of "''a1''" "''user''"]
  show ?thesis
    by (auto simp: testEnv_def plainJwt_def)
qed

end
